theory Spec2Isabelle
  imports Main "HOL-Library.Sublist"
begin

section \<open>The host: panes, the workspace and the effects a call has on it\<close>

text \<open>
  \<^verbatim>\<open>leaf.getViewState()\<close> yields \<^verbatim>\<open>{ type, state }\<close>; the plugin reads
  \<^verbatim>\<open>viewState.type\<close> and \<^verbatim>\<open>viewState.state?.file\<close>. \<open>vfile\<close> is \<open>None\<close>
  where \<^verbatim>\<open>state\<close> or \<^verbatim>\<open>state.file\<close> is absent. Strings are lists of characters; the
  only operations on them are equality, concatenation, splitting at \<^verbatim>\<open>#\<close> and
  \<^verbatim>\<open>endsWith\<close>.
\<close>

record ViewState =
  vtype :: string
  vfile :: "string option"

record WorkspaceLeaf =
  leaf_id :: nat
  getViewState :: ViewState

text \<open>
  A DOM element, as far as the click handler looks at it: its class list, its attributes
  and its parent (for \<^verbatim>\<open>closest\<close>).
\<close>

datatype Element =
  Element (classList: "string list") (attributes: "(string \<times> string) list")
    (parentElement: "Element option")

text \<open>
  The fields of a \<^verbatim>\<open>MouseEvent\<close> that the plugin reads or sets. \<open>target\<close> is \<open>None\<close> for
  an event whose target is null or is not an element (it has neither \<^verbatim>\<open>classList\<close> nor
  \<^verbatim>\<open>getAttribute\<close>), and for an event that has not been dispatched yet.
\<close>

record MouseEvent =
  bubbles :: bool
  cancelable :: bool
  shiftKey :: bool
  ctrlKey :: bool
  metaKey :: bool
  altKey :: bool
  target :: "Element option"

text \<open>
  What the plugin does to the host is recorded in order: \<^verbatim>\<open>workspace.setActiveLeaf(leaf)\<close>,
  which also makes \<open>leaf\<close> the active pane; \<^verbatim>\<open>event.stopPropagation()\<close> on the click
  being handled; \<^verbatim>\<open>target.dispatchEvent(ev)\<close>; and, for an original
  \<^verbatim>\<open>openLinkText\<close> that records its calls, the call with its four arguments. The host
  does the rest: what its original \<^verbatim>\<open>openLinkText\<close> does, and the delivery of a dispatched
  event to the listeners, this plugin's among them. \<open>'o\<close> is the opaque
  \<^verbatim>\<open>OpenViewState\<close>.
\<close>

datatype 'o effect =
  SetActiveLeaf WorkspaceLeaf
| StopPropagation
| DispatchEvent Element MouseEvent
| OpenLinkText string string bool "'o option"

record 'o Workspace =
  leaves :: "WorkspaceLeaf list"
  activeLeaf :: "WorkspaceLeaf option"
  trace :: "'o effect list"

datatype error = TypeError

definition setActiveLeaf :: "WorkspaceLeaf \<Rightarrow> 'o Workspace \<Rightarrow> 'o Workspace" where
  "setActiveLeaf leaf ws = ws\<lparr>activeLeaf := Some leaf, trace := trace ws @ [SetActiveLeaf leaf]\<rparr>"

definition stopPropagation :: "'o Workspace \<Rightarrow> 'o Workspace" where
  "stopPropagation ws = ws\<lparr>trace := trace ws @ [StopPropagation]\<rparr>"

definition dispatchEvent :: "Element \<Rightarrow> MouseEvent \<Rightarrow> 'o Workspace \<Rightarrow> 'o Workspace" where
  "dispatchEvent el ev ws = ws\<lparr>trace := trace ws @ [DispatchEvent el ev]\<rparr>"

text \<open>
  \<^verbatim>\<open>iterateAllLeaves(cb)\<close> calls \<open>cb\<close> on every open pane, in the host's order; the
  callback's state is threaded through. \<^verbatim>\<open>getLeavesOfType(t)\<close> lists, in the same order,
  the panes whose view type is \<open>t\<close>.
\<close>

definition iterateAllLeaves :: "'o Workspace \<Rightarrow> (WorkspaceLeaf \<Rightarrow> 's \<Rightarrow> 's) \<Rightarrow> 's \<Rightarrow> 's" where
  "iterateAllLeaves ws cb s = fold cb (leaves ws) s"

definition getLeavesOfType :: "'o Workspace \<Rightarrow> string \<Rightarrow> WorkspaceLeaf list" where
  "getLeavesOfType ws t = filter (\<lambda>leaf. vtype (getViewState leaf) = t) (leaves ws)"

section \<open>String operations of the source\<close>

text \<open>\<^verbatim>\<open>s.split(sep)\<close> for a separator of one character: never an empty array.\<close>

fun split :: "char \<Rightarrow> string \<Rightarrow> string list" where
  "split sep [] = [[]]"
| "split sep (c # cs) =
     (if c = sep then [] # split sep cs
      else (case split sep cs of
              [] \<Rightarrow> [[c]]
            | p # ps \<Rightarrow> (c # p) # ps))"

text \<open>\<^verbatim>\<open>s.endsWith(t)\<close>.\<close>

definition endsWith :: "string \<Rightarrow> string \<Rightarrow> bool" where
  "endsWith s t = suffix t s"

text \<open>\<^verbatim>\<open>x?.endsWith(t)\<close> used as a condition: an absent \<open>x\<close> gives undefined, which is falsy.\<close>

definition opt_endsWith :: "string option \<Rightarrow> string \<Rightarrow> bool" where
  "opt_endsWith x t = (case x of None \<Rightarrow> False | Some s \<Rightarrow> endsWith s t)"

section \<open>monkeyPatchOpenLinkText: the replacement of \<^verbatim>\<open>Workspace.prototype.openLinkText\<close>\<close>

text \<open>\<^verbatim>\<open>const fileName = linkText.split("#")?.[0]\<close>; the array has a first element.\<close>

definition fileName_of :: "string \<Rightarrow> string" where
  "fileName_of linkText = (case split CHR ''#'' linkText of [] \<Rightarrow> [] | p # ps \<Rightarrow> p)"

text \<open>\<^verbatim>\<open>const isSameFile = fileName === "" || `${fileName}.md` === sourcePath\<close>\<close>

definition isSameFile :: "string \<Rightarrow> string \<Rightarrow> bool" where
  "isSameFile fileName sourcePath = (fileName = [] \<or> fileName @ ''.md'' = sourcePath)"

definition matchesMarkdownFile :: "string \<Rightarrow> ViewState \<Rightarrow> bool" where
  "matchesMarkdownFile fileName viewState =
     (vtype viewState = ''markdown'' \<and> opt_endsWith (vfile viewState) (fileName @ ''.md''))"

definition matchesNonMarkdownFile :: "string \<Rightarrow> ViewState \<Rightarrow> bool" where
  "matchesNonMarkdownFile fileName viewState =
     (vtype viewState \<noteq> ''markdown'' \<and> opt_endsWith (vfile viewState) fileName)"

text \<open>
  The callback given to \<^verbatim>\<open>iterateAllLeaves\<close>; its state is the workspace and the local
  variable \<^verbatim>\<open>fileAlreadyOpen\<close>.
\<close>

definition scanLeaf :: "string \<Rightarrow> WorkspaceLeaf \<Rightarrow> 'o Workspace \<times> bool \<Rightarrow> 'o Workspace \<times> bool" where
  "scanLeaf fileName leaf s =
     (let viewState = getViewState leaf in
      if matchesMarkdownFile fileName viewState \<or> matchesNonMarkdownFile fileName viewState
      then (setActiveLeaf leaf (fst s), True)
      else s)"

text \<open>
  The patched method. \<open>oldOpenLinkText\<close> is the method that was patched, absent or a
  function of the four arguments that acts on the workspace; \<^verbatim>\<open>newLeaf || false\<close> reads an
  absent \<open>newLeaf\<close> as false.
\<close>

definition openLinkText ::
  "(string \<Rightarrow> string \<Rightarrow> bool \<Rightarrow> 'o option \<Rightarrow> 'o Workspace \<Rightarrow> 'o Workspace) option \<Rightarrow>
   string \<Rightarrow> string \<Rightarrow> bool option \<Rightarrow> 'o option \<Rightarrow> 'o Workspace \<Rightarrow> 'o Workspace" where
  "openLinkText oldOpenLinkText linkText sourcePath newLeaf openViewState ws =
     (let fileName = fileName_of linkText;
          sameFile = isSameFile fileName sourcePath;
          (ws1, fileAlreadyOpen) =
             (if \<not> sameFile then iterateAllLeaves ws (scanLeaf fileName) (ws, False)
              else (ws, False));
          openNewLeaf =
             (if sameFile then (case newLeaf of None \<Rightarrow> False | Some b \<Rightarrow> b)
              else if fileAlreadyOpen then False
              else True)
      in case oldOpenLinkText of
           None \<Rightarrow> ws1
         | Some old \<Rightarrow> old linkText sourcePath openNewLeaf openViewState ws1)"

section \<open>generateClickHandler: the capture-phase click listener\<close>

text \<open>\<^verbatim>\<open>el.classList.contains(c)\<close>, \<^verbatim>\<open>el.getAttribute(a)\<close>, \<^verbatim>\<open>el.closest("." + c)\<close>.\<close>

definition contains :: "Element \<Rightarrow> string \<Rightarrow> bool" where
  "contains el c = (c \<in> set (classList el))"

definition getAttribute :: "Element \<Rightarrow> string \<Rightarrow> string option" where
  "getAttribute el a = map_of (attributes el) a"

fun closest :: "string \<Rightarrow> Element \<Rightarrow> Element option" where
  "closest c (Element cl at p) =
     (if c \<in> set cl then Some (Element cl at p)
      else (case p of None \<Rightarrow> None | Some q \<Rightarrow> closest c q))"

definition pureClick :: "MouseEvent \<Rightarrow> bool" where
  "pureClick event =
     (\<not> shiftKey event \<and> \<not> ctrlKey event \<and> \<not> metaKey event \<and> \<not> shiftKey event \<and> \<not> altKey event)"

text \<open>
  \<^verbatim>\<open>new MouseEvent('click', { bubbles: true, cancelable: true, metaKey: true })\<close>: the
  other modifiers default to false.
\<close>

definition clickEvent :: MouseEvent where
  "clickEvent = \<lparr>bubbles = True, cancelable = True, shiftKey = False, ctrlKey = False,
     metaKey = True, altKey = False, target = None\<rparr>"

text \<open>The callback of the scan in \<^verbatim>\<open>_handleNavigationPanel\<close>; the local variable is \<^verbatim>\<open>result\<close>.\<close>

definition navLeaf :: "string \<Rightarrow> WorkspaceLeaf \<Rightarrow> 'o Workspace \<times> bool \<Rightarrow> 'o Workspace \<times> bool" where
  "navLeaf path leaf s =
     (let viewState = getViewState leaf in
      if vfile viewState = Some path then (setActiveLeaf leaf (fst s), True) else s)"

text \<open>
  \<^verbatim>\<open>appInstance.workspace.openLinkText(path, path, true)\<close> enters the patched method:
  \<^verbatim>\<open>onload\<close> patches \<^verbatim>\<open>Workspace.prototype\<close> before it registers the listener. So the
  handlers are given \<open>oldOpenLinkText\<close>, the method that the patch wraps.
\<close>

definition handleNavigationPanel ::
  "(string \<Rightarrow> string \<Rightarrow> bool \<Rightarrow> 'o option \<Rightarrow> 'o Workspace \<Rightarrow> 'o Workspace) option \<Rightarrow>
   Element \<Rightarrow> 'o Workspace \<Rightarrow> 'o Workspace" where
  "handleNavigationPanel oldOpenLinkText tgt ws =
     (case closest ''nav-file-title'' tgt of
        None \<Rightarrow> ws
      | Some titleEl \<Rightarrow>
          (case getAttribute titleEl ''data-path'' of
             None \<Rightarrow> ws
           | Some path \<Rightarrow>
               if path = [] then ws
               else
                 (let (ws1, result) = iterateAllLeaves ws (navLeaf path) (ws, False);
                      emptyLeaves = getLeavesOfType ws1 ''empty''
                  in case emptyLeaves of
                       e # es \<Rightarrow> setActiveLeaf e ws1
                     | [] \<Rightarrow>
                         if \<not> result
                         then openLinkText oldOpenLinkText path path (Some True) None
                                (stopPropagation ws1)
                         else ws1)))"

definition handleDailyNoteRibbon :: "Element \<Rightarrow> 'o Workspace \<Rightarrow> 'o Workspace" where
  "handleDailyNoteRibbon tgt ws = dispatchEvent tgt clickEvent (stopPropagation ws)"

definition handleUniqueNoteRibbon :: "Element \<Rightarrow> 'o Workspace \<Rightarrow> 'o Workspace" where
  "handleUniqueNoteRibbon tgt ws = dispatchEvent tgt clickEvent (stopPropagation ws)"

definition handleSearchResult :: "Element \<Rightarrow> 'o Workspace \<Rightarrow> 'o Workspace" where
  "handleSearchResult tgt ws = dispatchEvent tgt clickEvent (stopPropagation ws)"

definition isNavFile :: "Element \<Rightarrow> bool" where
  "isNavFile tgt = (contains tgt ''nav-file-title'' \<or> contains tgt ''nav-file-title-content'')"

definition isDailyNoteRibbon :: "Element \<Rightarrow> bool" where
  "isDailyNoteRibbon tgt =
     (getAttribute tgt ''aria-label'' = Some (''Open today'' @ [CHR 0x27] @ ''s daily note'')
      \<and> contains tgt ''side-dock-ribbon-action'')"

definition isUniqueNoteRibbon :: "Element \<Rightarrow> bool" where
  "isUniqueNoteRibbon tgt =
     (getAttribute tgt ''aria-label'' = Some ''Create new unique note''
      \<and> contains tgt ''side-dock-ribbon-action'')"

definition classesToCheck :: "string list" where
  "classesToCheck = [''tree-item search-result'', ''search-result-file-title'', ''tree-item-inner'',
     ''search-result-file-matches'', ''search-result-file-match'', ''search-result'']"

definition isSearchResult :: "Element \<Rightarrow> bool" where
  "isSearchResult tgt = list_ex (\<lambda>className. className \<in> set classesToCheck) (classList tgt)"

text \<open>
  The listener. A click that passes the modifier guard and whose target is no element and
  so no navigation file reaches \<^verbatim>\<open>target.getAttribute\<close>, which throws.
\<close>

definition clickHandler ::
  "(string \<Rightarrow> string \<Rightarrow> bool \<Rightarrow> 'o option \<Rightarrow> 'o Workspace \<Rightarrow> 'o Workspace) option \<Rightarrow>
   MouseEvent \<Rightarrow> 'o Workspace \<Rightarrow> error + 'o Workspace" where
  "clickHandler oldOpenLinkText event ws =
     (if \<not> pureClick event then Inr ws
      else (case target event of
              None \<Rightarrow> Inl TypeError
            | Some tgt \<Rightarrow>
                if isNavFile tgt then Inr (handleNavigationPanel oldOpenLinkText tgt ws)
                else if isDailyNoteRibbon tgt then Inr (handleDailyNoteRibbon tgt ws)
                else if isUniqueNoteRibbon tgt then Inr (handleUniqueNoteRibbon tgt ws)
                else if isSearchResult tgt then Inr (handleSearchResult tgt ws)
                else Inr ws))"

section \<open>Example data\<close>

text \<open>
  Panes, elements and events used where a statement is evaluated at a concrete input:
  two notes \<^verbatim>\<open>A.md\<close> and \<^verbatim>\<open>B.md\<close>, a note \<^verbatim>\<open>Notes/B.md\<close>, a note \<^verbatim>\<open>Notes/X.md\<close>
  open in two panes, two empty panes; a row of the file tree for \<^verbatim>\<open>Notes/X.md\<close> and its title text, a title
  text outside any row, a row without \<^verbatim>\<open>data-path\<close>, a search result and the daily-note
  ribbon button; a plain click, a click with ctrl held, and a click made by
  \<^verbatim>\<open>new MouseEvent('click')\<close>, which neither bubbles nor is cancelable; an image
  \<^verbatim>\<open>sub/img.png\<close> open in a pane and a row of the file tree for another \<^verbatim>\<open>img.png\<close>; a
  click dispatched on the document itself, whose target is no element. \<open>recordCall\<close> is
  an original \<^verbatim>\<open>openLinkText\<close> that only records its call.
\<close>

abbreviation leafA :: WorkspaceLeaf where
  "leafA \<equiv> \<lparr>leaf_id = 0, getViewState = \<lparr>vtype = ''markdown'', vfile = Some ''A.md''\<rparr>\<rparr>"

abbreviation leafB :: WorkspaceLeaf where
  "leafB \<equiv> \<lparr>leaf_id = 1, getViewState = \<lparr>vtype = ''markdown'', vfile = Some ''B.md''\<rparr>\<rparr>"

abbreviation leafX :: WorkspaceLeaf where
  "leafX \<equiv> \<lparr>leaf_id = 2, getViewState = \<lparr>vtype = ''markdown'', vfile = Some ''Notes/X.md''\<rparr>\<rparr>"

abbreviation leafE :: WorkspaceLeaf where
  "leafE \<equiv> \<lparr>leaf_id = 3, getViewState = \<lparr>vtype = ''empty'', vfile = None\<rparr>\<rparr>"

abbreviation workspace_of :: "WorkspaceLeaf list \<Rightarrow> unit Workspace" where
  "workspace_of ls \<equiv> \<lparr>leaves = ls, activeLeaf = None, trace = []\<rparr>"

abbreviation navRow :: Element where
  "navRow \<equiv> Element [''tree-item-self'', ''nav-file-title''] [(''data-path'', ''Notes/X.md'')] None"

abbreviation navContent :: Element where
  "navContent \<equiv> Element [''tree-item-inner'', ''nav-file-title-content''] [] (Some navRow)"

abbreviation searchHit :: Element where
  "searchHit \<equiv> Element [''search-result-file-title''] [] None"

abbreviation click :: "Element \<Rightarrow> MouseEvent" where
  "click tgt \<equiv> \<lparr>bubbles = True, cancelable = True, shiftKey = False, ctrlKey = False,
     metaKey = False, altKey = False, target = Some tgt\<rparr>"

definition recordCall ::
  "string \<Rightarrow> string \<Rightarrow> bool \<Rightarrow> unit option \<Rightarrow> unit Workspace \<Rightarrow> unit Workspace" where
  "recordCall linkText sourcePath newLeaf openViewState ws =
     ws\<lparr>trace := trace ws @ [OpenLinkText linkText sourcePath newLeaf openViewState]\<rparr>"

abbreviation leafX2 :: WorkspaceLeaf where
  "leafX2 \<equiv> \<lparr>leaf_id = 4, getViewState = \<lparr>vtype = ''markdown'', vfile = Some ''Notes/X.md''\<rparr>\<rparr>"

abbreviation leafE2 :: WorkspaceLeaf where
  "leafE2 \<equiv> \<lparr>leaf_id = 5, getViewState = \<lparr>vtype = ''empty'', vfile = None\<rparr>\<rparr>"

abbreviation leafNB :: WorkspaceLeaf where
  "leafNB \<equiv> \<lparr>leaf_id = 6, getViewState = \<lparr>vtype = ''markdown'', vfile = Some ''Notes/B.md''\<rparr>\<rparr>"

abbreviation orphanContent :: Element where
  "orphanContent \<equiv> Element [''nav-file-title-content''] [] None"

abbreviation bareRow :: Element where
  "bareRow \<equiv> Element [''nav-file-title''] [] None"

abbreviation dailyRibbon :: Element where
  "dailyRibbon \<equiv> Element [''clickable-icon'', ''side-dock-ribbon-action'']
     [(''aria-label'', ''Open today'' @ [CHR 0x27] @ ''s daily note'')] None"

abbreviation ctrlClick :: "Element \<Rightarrow> MouseEvent" where
  "ctrlClick tgt \<equiv> \<lparr>bubbles = True, cancelable = True, shiftKey = False, ctrlKey = True,
     metaKey = False, altKey = False, target = Some tgt\<rparr>"



abbreviation documentClick :: MouseEvent where
  "documentClick \<equiv> \<lparr>bubbles = True, cancelable = True, shiftKey = False, ctrlKey = False,
     metaKey = False, altKey = False, target = None\<rparr>"

abbreviation scriptedClick :: "Element \<Rightarrow> MouseEvent" where
  "scriptedClick tgt \<equiv> \<lparr>bubbles = False, cancelable = False, shiftKey = False, ctrlKey = False,
     metaKey = False, altKey = False, target = Some tgt\<rparr>"

section \<open>Auxiliary facts\<close>

lemmas eval_defs = clickHandler_def pureClick_def isNavFile_def isDailyNoteRibbon_def
  isUniqueNoteRibbon_def isSearchResult_def classesToCheck_def contains_def getAttribute_def
  handleNavigationPanel_def handleDailyNoteRibbon_def handleUniqueNoteRibbon_def
  handleSearchResult_def navLeaf_def scanLeaf_def iterateAllLeaves_def getLeavesOfType_def
  setActiveLeaf_def stopPropagation_def dispatchEvent_def recordCall_def
  clickEvent_def openLinkText_def fileName_of_def isSameFile_def matchesMarkdownFile_def
  matchesNonMarkdownFile_def opt_endsWith_def endsWith_def suffix_to_prefix Let_def

lemma split_first: "(case split sep s of [] \<Rightarrow> [] | p # ps \<Rightarrow> p) = takeWhile (\<lambda>c. c \<noteq> sep) s"
  by (induction s) (auto split: list.splits)

lemma fileName_of_takeWhile: "fileName_of linkText = takeWhile (\<lambda>c. c \<noteq> CHR ''#'') linkText"
  unfolding fileName_of_def by (rule split_first)

lemma fold_activate:
  "fold (\<lambda>leaf s. if P leaf then (setActiveLeaf leaf (fst s), True) else s) ls (ws, b) =
     (ws\<lparr>activeLeaf := (if filter P ls = [] then activeLeaf ws else Some (last (filter P ls))),
         trace := trace ws @ map SetActiveLeaf (filter P ls)\<rparr>,
      b \<or> filter P ls \<noteq> [])"
proof (induction ls arbitrary: ws b)
  case Nil
  show ?case by simp
next
  case (Cons x xs)
  show ?case
  proof (cases "P x")
    case True
    then show ?thesis
      by (simp add: Cons.IH setActiveLeaf_def)
  next
    case False
    then show ?thesis
      by (simp add: Cons.IH)
  qed
qed

lemma scan_result:
  "iterateAllLeaves ws (scanLeaf fileName) (ws, False) =
     (ws\<lparr>activeLeaf :=
           (if filter (\<lambda>leaf. matchesMarkdownFile fileName (getViewState leaf)
                          \<or> matchesNonMarkdownFile fileName (getViewState leaf)) (leaves ws) = []
            then activeLeaf ws
            else Some (last (filter (\<lambda>leaf. matchesMarkdownFile fileName (getViewState leaf)
                          \<or> matchesNonMarkdownFile fileName (getViewState leaf)) (leaves ws)))),
         trace := trace ws @ map SetActiveLeaf
           (filter (\<lambda>leaf. matchesMarkdownFile fileName (getViewState leaf)
                          \<or> matchesNonMarkdownFile fileName (getViewState leaf)) (leaves ws))\<rparr>,
      filter (\<lambda>leaf. matchesMarkdownFile fileName (getViewState leaf)
                          \<or> matchesNonMarkdownFile fileName (getViewState leaf)) (leaves ws) \<noteq> [])"
proof -
  have eq: "scanLeaf fileName =
      (\<lambda>leaf s. if matchesMarkdownFile fileName (getViewState leaf)
                      \<or> matchesNonMarkdownFile fileName (getViewState leaf)
                 then (setActiveLeaf leaf (fst s), True) else s)"
    by (intro ext) (simp add: scanLeaf_def Let_def)
  show ?thesis
    unfolding iterateAllLeaves_def eq fold_activate by simp
qed

lemma nav_result:
  "iterateAllLeaves ws (navLeaf path) (ws, False) =
     (ws\<lparr>activeLeaf :=
           (if filter (\<lambda>leaf. vfile (getViewState leaf) = Some path) (leaves ws) = []
            then activeLeaf ws
            else Some (last (filter (\<lambda>leaf. vfile (getViewState leaf) = Some path) (leaves ws)))),
         trace := trace ws @ map SetActiveLeaf
           (filter (\<lambda>leaf. vfile (getViewState leaf) = Some path) (leaves ws))\<rparr>,
      filter (\<lambda>leaf. vfile (getViewState leaf) = Some path) (leaves ws) \<noteq> [])"
proof -
  have eq: "navLeaf path =
      (\<lambda>leaf s. if vfile (getViewState leaf) = Some path
                 then (setActiveLeaf leaf (fst s), True) else s)"
    by (intro ext) (simp add: navLeaf_def Let_def)
  show ?thesis
    unfolding iterateAllLeaves_def eq fold_activate by simp
qed

lemma matches_spelled:
  "(matchesMarkdownFile fileName vs \<or> matchesNonMarkdownFile fileName vs) \<longleftrightarrow>
     (vtype vs = ''markdown'' \<and> (\<exists>f. vfile vs = Some f \<and> suffix (fileName @ ''.md'') f))
     \<or> (vtype vs \<noteq> ''markdown'' \<and> (\<exists>f. vfile vs = Some f \<and> suffix fileName f))"
  by (auto simp: matchesMarkdownFile_def matchesNonMarkdownFile_def opt_endsWith_def endsWith_def
      split: option.splits)

lemma openLinkText_unfold:
  "openLinkText oldOpenLinkText linkText sourcePath newLeaf openViewState ws =
     (let fileName = fileName_of linkText;
          ms = (if isSameFile fileName sourcePath then []
                else filter (\<lambda>leaf. matchesMarkdownFile fileName (getViewState leaf)
                          \<or> matchesNonMarkdownFile fileName (getViewState leaf)) (leaves ws));
          ws1 = ws\<lparr>activeLeaf := (if ms = [] then activeLeaf ws else Some (last ms)),
                    trace := trace ws @ map SetActiveLeaf ms\<rparr>;
          openNewLeaf = (if isSameFile fileName sourcePath
                         then (case newLeaf of None \<Rightarrow> False | Some b \<Rightarrow> b)
                         else ms = [])
      in case oldOpenLinkText of
           None \<Rightarrow> ws1
         | Some old \<Rightarrow> old linkText sourcePath openNewLeaf openViewState ws1)"
proof (cases "isSameFile (fileName_of linkText) sourcePath")
  case True
  then show ?thesis
    by (simp add: openLinkText_def Let_def split: option.splits)
next
  case False
  then show ?thesis
    by (simp add: openLinkText_def Let_def scan_result split: option.splits)
qed

lemma handleNavigationPanel_unfold:
  assumes "closest ''nav-file-title'' tgt = Some titleEl"
    and "getAttribute titleEl ''data-path'' = Some path"
    and "path \<noteq> []"
  shows "handleNavigationPanel oldOpenLinkText tgt ws =
     (let ms = filter (\<lambda>leaf. vfile (getViewState leaf) = Some path) (leaves ws);
          ws1 = ws\<lparr>activeLeaf := (if ms = [] then activeLeaf ws else Some (last ms)),
                    trace := trace ws @ map SetActiveLeaf ms\<rparr>
      in case getLeavesOfType ws ''empty'' of
           e # es \<Rightarrow> setActiveLeaf e ws1
         | [] \<Rightarrow> if ms = [] then openLinkText oldOpenLinkText path path (Some True) None
                                   (stopPropagation ws1)
                 else ws1)"
  using assms
  by (simp add: handleNavigationPanel_def nav_result Let_def getLeavesOfType_def split: list.splits)

lemma clickHandler_nav:
  assumes "pureClick event" and "target event = Some tgt" and "isNavFile tgt"
  shows "clickHandler oldOpenLinkText event ws = Inr (handleNavigationPanel oldOpenLinkText tgt ws)"
  using assms by (simp add: clickHandler_def)


lemma example_click_resolves:
  "pureClick (click navContent) \<and> target (click navContent) = Some navContent
   \<and> isNavFile navContent \<and> closest ''nav-file-title'' navContent = Some navRow
   \<and> getAttribute navRow ''data-path'' = Some ''Notes/X.md''"
  by (simp add: pureClick_def isNavFile_def contains_def getAttribute_def)

section \<open>The link-resolution interceptor\<close>

text \<open>
  Claim C1. Whenever the patched method is called and an original method exists, the
  original is called with the same link text, source path and view options, on a
  workspace with the same panes, and with this new-pane flag: the caller's flag (false
  when absent) if \<open>isSameFile\<close> holds; false if it does not hold and some open pane
  matched during the scan; true if it does not hold and no pane matched.
\<close>

theorem C1_effective_flag:
  "\<exists>ws1. leaves ws1 = leaves ws \<and>
     openLinkText (Some old) linkText sourcePath requestedNewPane openViewOptions ws =
       old linkText sourcePath
         (if isSameFile (fileName_of linkText) sourcePath
          then (case requestedNewPane of None \<Rightarrow> False | Some b \<Rightarrow> b)
          else if (\<exists>leaf \<in> set (leaves ws).
                     matchesMarkdownFile (fileName_of linkText) (getViewState leaf)
                     \<or> matchesNonMarkdownFile (fileName_of linkText) (getViewState leaf))
          then False
          else True)
         openViewOptions ws1"
proof (cases "isSameFile (fileName_of linkText) sourcePath")
  case True
  then have "openLinkText (Some old) linkText sourcePath requestedNewPane openViewOptions ws =
      old linkText sourcePath (case requestedNewPane of None \<Rightarrow> False | Some b \<Rightarrow> b)
        openViewOptions ws"
    by (simp add: openLinkText_unfold Let_def)
  with True show ?thesis
    by auto
next
  case False
  let ?ms = "filter (\<lambda>leaf. matchesMarkdownFile (fileName_of linkText) (getViewState leaf)
      \<or> matchesNonMarkdownFile (fileName_of linkText) (getViewState leaf)) (leaves ws)"
  let ?ws1 = "ws\<lparr>activeLeaf := (if ?ms = [] then activeLeaf ws else Some (last ?ms)),
      trace := trace ws @ map SetActiveLeaf ?ms\<rparr>"
  from False have "openLinkText (Some old) linkText sourcePath requestedNewPane openViewOptions ws =
      old linkText sourcePath (?ms = []) openViewOptions ?ws1"
    by (simp add: openLinkText_unfold Let_def)
  moreover have "(?ms = []) = (\<not> (\<exists>leaf \<in> set (leaves ws).
      matchesMarkdownFile (fileName_of linkText) (getViewState leaf)
      \<or> matchesNonMarkdownFile (fileName_of linkText) (getViewState leaf)))"
    by (simp add: filter_empty_conv)
  moreover have "leaves ?ws1 = leaves ws"
    by simp
  ultimately show ?thesis
    using False by (intro exI [of _ ?ws1]) (simp only: if_False not_not if_bool_eq_conj, simp)
qed

theorem C1_witness:
  "\<exists>ws1. leaves ws1 = [leafA, leafB] \<and>
     openLinkText (Some recordCall) ''B'' ''A.md'' None None (workspace_of [leafA, leafB]) =
       recordCall ''B'' ''A.md'' False None ws1"
  using C1_effective_flag [where old = recordCall and linkText = "''B''" and sourcePath = "''A.md''"
      and requestedNewPane = None and openViewOptions = None and ws = "workspace_of [leafA, leafB]"]
  by (simp add: fileName_of_def isSameFile_def matchesMarkdownFile_def matchesNonMarkdownFile_def
      opt_endsWith_def endsWith_def suffix_to_prefix)

text \<open>
  Claim C3. The file name component is the part of the link text before the first
  \<^verbatim>\<open>#\<close>; \<open>isSameFile\<close> holds exactly when that component is empty or, followed by
  \<^verbatim>\<open>.md\<close>, equals the source path. For a link text \<^verbatim>\<open>#fragment\<close> and for the empty link
  text the component is empty, \<open>isSameFile\<close> holds whatever the source path is, no pane
  is activated and the original method receives the caller's flag (false when absent).
\<close>

theorem C3_same_file:
  "fileName_of linkText = takeWhile (\<lambda>c. c \<noteq> CHR ''#'') linkText
   \<and> (isSameFile (fileName_of linkText) sourcePath \<longleftrightarrow>
        fileName_of linkText = [] \<or> fileName_of linkText @ ''.md'' = sourcePath)
   \<and> fileName_of (CHR ''#'' # fragment) = []
   \<and> isSameFile (fileName_of (CHR ''#'' # fragment)) sourcePath
   \<and> isSameFile (fileName_of []) sourcePath
   \<and> openLinkText (Some old) (CHR ''#'' # fragment) sourcePath newLeaf openViewState ws =
        old (CHR ''#'' # fragment) sourcePath (case newLeaf of None \<Rightarrow> False | Some b \<Rightarrow> b)
          openViewState ws
   \<and> openLinkText (Some old) [] sourcePath newLeaf openViewState ws =
        old [] sourcePath (case newLeaf of None \<Rightarrow> False | Some b \<Rightarrow> b) openViewState ws"
proof -
  have hash: "fileName_of (CHR ''#'' # fragment) = []"
    by (simp add: fileName_of_def)
  have emp: "fileName_of [] = []"
    by (simp add: fileName_of_def)
  have same: "isSameFile [] sourcePath"
    by (simp add: isSameFile_def)
  have "openLinkText (Some old) (CHR ''#'' # fragment) sourcePath newLeaf openViewState ws =
        old (CHR ''#'' # fragment) sourcePath (case newLeaf of None \<Rightarrow> False | Some b \<Rightarrow> b)
          openViewState ws"
    by (simp add: openLinkText_unfold Let_def hash same)
  moreover have "openLinkText (Some old) [] sourcePath newLeaf openViewState ws =
        old [] sourcePath (case newLeaf of None \<Rightarrow> False | Some b \<Rightarrow> b) openViewState ws"
    by (simp add: openLinkText_unfold Let_def emp same)
  ultimately show ?thesis
    by (simp add: fileName_of_takeWhile [symmetric] hash emp same) (simp add: isSameFile_def)
qed

theorem C3_witness:
  "fileName_of ''LinkDemo#Header 1'' = ''LinkDemo''
   \<and> isSameFile (fileName_of ''LinkDemo#Header 1'') ''LinkDemo.md''
   \<and> isSameFile (fileName_of ''#Header 1'') ''LinkDemo.md''
   \<and> openLinkText (Some recordCall) ''#Header 1'' ''LinkDemo.md'' (Some True) None
         (workspace_of [leafA, leafB]) =
        recordCall ''#Header 1'' ''LinkDemo.md'' True None (workspace_of [leafA, leafB])"
  using C3_same_file [where linkText = "''LinkDemo#Header 1''" and sourcePath = "''LinkDemo.md''"
      and fragment = "''Header 1''" and old = recordCall and newLeaf = "Some True"
      and openViewState = None and ws = "workspace_of [leafA, leafB]"]
  by (simp add: isSameFile_def)

text \<open>
  Claim C4. When \<open>isSameFile\<close> does not hold, the scan activates exactly the matching
  panes, in iteration order, so that the last matching pane is the active one; a pane
  matches iff its view type is \<^verbatim>\<open>markdown\<close> and its file ends with the file name component
  followed by \<^verbatim>\<open>.md\<close>, or its view type is not \<^verbatim>\<open>markdown\<close> and its file ends with the
  file name component. When no pane matches, the workspace is unchanged at the time of the
  delegation. (\<open>ms = []\<close> is the flag the original method is given.)
\<close>

theorem C4_scan_activates_matches:
  assumes "\<not> isSameFile (fileName_of linkText) sourcePath"
    and "ms = filter (\<lambda>leaf.
           (vtype (getViewState leaf) = ''markdown''
              \<and> (\<exists>f. vfile (getViewState leaf) = Some f \<and> suffix (fileName_of linkText @ ''.md'') f))
           \<or> (vtype (getViewState leaf) \<noteq> ''markdown''
              \<and> (\<exists>f. vfile (getViewState leaf) = Some f \<and> suffix (fileName_of linkText) f)))
         (leaves ws)"
    and "ws1 = ws\<lparr>activeLeaf := (if ms = [] then activeLeaf ws else Some (last ms)),
                   trace := trace ws @ map SetActiveLeaf ms\<rparr>"
  shows "openLinkText oldOpenLinkText linkText sourcePath newLeaf openViewState ws =
           (case oldOpenLinkText of
              None \<Rightarrow> ws1
            | Some old \<Rightarrow> old linkText sourcePath (ms = []) openViewState ws1)
         \<and> (ms = [] \<longrightarrow> ws1 = ws)"
proof -
  have "ms = filter (\<lambda>leaf. matchesMarkdownFile (fileName_of linkText) (getViewState leaf)
      \<or> matchesNonMarkdownFile (fileName_of linkText) (getViewState leaf)) (leaves ws)"
    unfolding assms(2) by (rule filter_cong) (simp_all add: matches_spelled)
  with assms(1,3) show ?thesis
    by (simp add: openLinkText_unfold Let_def split: option.splits)
qed

theorem C4_witness:
  "\<not> isSameFile (fileName_of ''B'') ''A.md''
   \<and> openLinkText (Some recordCall) ''B'' ''A.md'' None None
         (workspace_of [leafA, leafB, leafNB, leafX]) =
       recordCall ''B'' ''A.md'' False None
         \<lparr>leaves = [leafA, leafB, leafNB, leafX], activeLeaf = Some leafNB,
           trace = [SetActiveLeaf leafB, SetActiveLeaf leafNB]\<rparr>"
proof -
  have h: "\<not> isSameFile (fileName_of ''B'') ''A.md''"
    by (simp add: fileName_of_def isSameFile_def)
  from C4_scan_activates_matches [OF h refl refl, where oldOpenLinkText = "Some recordCall"
      and newLeaf = None and openViewState = None
      and ws = "workspace_of [leafA, leafB, leafNB, leafX]"]
  show ?thesis
    using h by (simp add: fileName_of_def suffix_to_prefix)
qed

section \<open>The click listener\<close>

text \<open>
  Claim C2, as the code has it. For a click on a file-tree row whose non-empty
  \<^verbatim>\<open>data-path\<close> equals the file of some open pane, when there is no pane of type
  \<^verbatim>\<open>empty\<close>: every pane showing that file is activated, in iteration order, so that the
  last of them is active; nothing else happens: \<^verbatim>\<open>openLinkText\<close> is not called and the
  click's propagation is not stopped.
\<close>

theorem C2_match_activated_not_suppressed:
  assumes "pureClick event" and "target event = Some tgt" and "isNavFile tgt"
    and "closest ''nav-file-title'' tgt = Some titleEl"
    and "getAttribute titleEl ''data-path'' = Some path" and "path \<noteq> []"
    and "ms = filter (\<lambda>leaf. vfile (getViewState leaf) = Some path) (leaves ws)"
    and "ms \<noteq> []"
    and "getLeavesOfType ws ''empty'' = []"
  shows "clickHandler oldOpenLinkText event ws =
           Inr (ws\<lparr>activeLeaf := Some (last ms), trace := trace ws @ map SetActiveLeaf ms\<rparr>)"
  using assms(8,9)
  by (simp add: clickHandler_nav [OF assms(1-3)] handleNavigationPanel_unfold [OF assms(4-6)]
      Let_def assms(7) [symmetric])

theorem C2_witness:
  "pureClick (click navContent) \<and> target (click navContent) = Some navContent
   \<and> isNavFile navContent \<and> closest ''nav-file-title'' navContent = Some navRow
   \<and> getAttribute navRow ''data-path'' = Some ''Notes/X.md''
   \<and> filter (\<lambda>leaf. vfile (getViewState leaf) = Some ''Notes/X.md'') [leafX, leafB, leafX2]
       = [leafX, leafX2]
   \<and> getLeavesOfType (workspace_of [leafX, leafB, leafX2]) ''empty'' = []
   \<and> clickHandler (Some recordCall) (click navContent) (workspace_of [leafX, leafB, leafX2]) =
       Inr \<lparr>leaves = [leafX, leafB, leafX2], activeLeaf = Some leafX2,
            trace = [SetActiveLeaf leafX, SetActiveLeaf leafX2]\<rparr>"
proof -
  note ex = example_click_resolves
  have h6: "''Notes/X.md'' \<noteq> []"
    by simp
  have h8: "filter (\<lambda>leaf. vfile (getViewState leaf) = Some ''Notes/X.md'')
      (leaves (workspace_of [leafX, leafB, leafX2])) \<noteq> []"
    by simp
  have h9: "getLeavesOfType (workspace_of [leafX, leafB, leafX2]) ''empty'' = []"
    by (simp add: getLeavesOfType_def)
  from C2_match_activated_not_suppressed [OF ex [THEN conjunct1] ex [THEN conjunct2, THEN conjunct1]
      ex [THEN conjunct2, THEN conjunct2, THEN conjunct1]
      ex [THEN conjunct2, THEN conjunct2, THEN conjunct2, THEN conjunct1]
      ex [THEN conjunct2, THEN conjunct2, THEN conjunct2, THEN conjunct2] h6 refl h8 h9,
      where oldOpenLinkText = "Some recordCall"]
  show ?thesis
    using ex h9 by simp
qed

text \<open>
  The claim as it was stated fails: with \<^verbatim>\<open>Notes/X.md\<close> open in a pane and no empty pane,
  the click on its row activates the pane and does not stop the propagation.
\<close>

theorem C2_counterexample:
  "clickHandler (Some recordCall) (click navContent) (workspace_of [leafA, leafX]) =
     Inr \<lparr>leaves = [leafA, leafX], activeLeaf = Some leafX, trace = [SetActiveLeaf leafX]\<rparr>
   \<and> getLeavesOfType (workspace_of [leafA, leafX]) ''empty'' = []
   \<and> StopPropagation \<notin> set (trace (\<lparr>leaves = [leafA, leafX], activeLeaf = Some leafX,
         trace = [SetActiveLeaf leafX]\<rparr> :: unit Workspace))"
  by (simp add: eval_defs)

text \<open>
  Claim C5, as the code has it. For a click without modifier whose target is not a
  file-tree row and is the daily-note ribbon button, the unique-note ribbon button or a
  search result, the listener stops the propagation of the click once and then
  dispatches one new click on the same target; the new click has \<^verbatim>\<open>metaKey\<close>,
  \<^verbatim>\<open>bubbles\<close> and \<^verbatim>\<open>cancelable\<close> true and no other modifier, whatever the flags of the
  original click are.
\<close>

theorem C5_redispatch_fixed_flags:
  assumes "pureClick event" and "target event = Some tgt" and "\<not> isNavFile tgt"
    and "isDailyNoteRibbon tgt \<or> isUniqueNoteRibbon tgt \<or> isSearchResult tgt"
  shows "clickHandler oldOpenLinkText event ws =
     Inr (ws\<lparr>trace := trace ws @
       [StopPropagation,
        DispatchEvent tgt \<lparr>bubbles = True, cancelable = True, shiftKey = False, ctrlKey = False,
          metaKey = True, altKey = False, target = None\<rparr>]\<rparr>)"
  using assms
  by (auto simp: clickHandler_def handleDailyNoteRibbon_def handleUniqueNoteRibbon_def
      handleSearchResult_def stopPropagation_def dispatchEvent_def clickEvent_def)

theorem C5_witness:
  "pureClick (click dailyRibbon) \<and> target (click dailyRibbon) = Some dailyRibbon
   \<and> \<not> isNavFile dailyRibbon \<and> isDailyNoteRibbon dailyRibbon
   \<and> clickHandler (Some recordCall) (click dailyRibbon) (workspace_of [leafA]) =
       Inr \<lparr>leaves = [leafA], activeLeaf = None,
            trace = [StopPropagation,
              DispatchEvent dailyRibbon \<lparr>bubbles = True, cancelable = True, shiftKey = False,
                ctrlKey = False, metaKey = True, altKey = False, target = None\<rparr>]\<rparr>"
proof -
  have h1: "pureClick (click dailyRibbon)"
    by (simp add: pureClick_def)
  have h2: "target (click dailyRibbon) = Some dailyRibbon"
    by simp
  have h3: "\<not> isNavFile dailyRibbon"
    by (simp add: isNavFile_def contains_def)
  have h4: "isDailyNoteRibbon dailyRibbon"
    by (simp add: isDailyNoteRibbon_def contains_def getAttribute_def)
  from C5_redispatch_fixed_flags [OF h1 h2 h3 disjI1 [OF h4], where ws = "workspace_of [leafA]"
      and oldOpenLinkText = "Some recordCall"]
  show ?thesis
    using h1 h2 h3 h4 by simp
qed

text \<open>
  The claim as it was stated fails: a click on a search result that does not bubble and
  is not cancelable is answered by a click that bubbles and is cancelable.
\<close>

theorem C5_counterexample:
  "clickHandler (Some recordCall) (scriptedClick searchHit) (workspace_of []) =
     Inr \<lparr>leaves = [], activeLeaf = None,
          trace = [StopPropagation, DispatchEvent searchHit clickEvent]\<rparr>
   \<and> bubbles clickEvent \<noteq> bubbles (scriptedClick searchHit)
   \<and> cancelable clickEvent \<noteq> cancelable (scriptedClick searchHit)"
  by (simp add: eval_defs)

text \<open>
  Claim C6. For a click on a file-tree row with a non-empty \<^verbatim>\<open>data-path\<close>, if there is
  a pane of type \<^verbatim>\<open>empty\<close>, the listener (after the scan, which activates the panes
  showing the path) activates the first empty pane and returns: the propagation is not
  stopped and \<^verbatim>\<open>openLinkText\<close> is not called.
\<close>

theorem C6_empty_pane_reused:
  assumes "pureClick event" and "target event = Some tgt" and "isNavFile tgt"
    and "closest ''nav-file-title'' tgt = Some titleEl"
    and "getAttribute titleEl ''data-path'' = Some path" and "path \<noteq> []"
    and "getLeavesOfType ws ''empty'' = e # es"
  shows "clickHandler oldOpenLinkText event ws =
     Inr (ws\<lparr>activeLeaf := Some e,
              trace := trace ws
                @ map SetActiveLeaf (filter (\<lambda>leaf. vfile (getViewState leaf) = Some path) (leaves ws))
                @ [SetActiveLeaf e]\<rparr>)"
  using assms(7)
  by (simp add: clickHandler_nav [OF assms(1-3)] handleNavigationPanel_unfold [OF assms(4-6)]
      Let_def setActiveLeaf_def)

theorem C6_witness:
  "pureClick (click navContent) \<and> target (click navContent) = Some navContent
   \<and> isNavFile navContent \<and> closest ''nav-file-title'' navContent = Some navRow
   \<and> getAttribute navRow ''data-path'' = Some ''Notes/X.md''
   \<and> getLeavesOfType (workspace_of [leafA, leafE, leafE2]) ''empty'' = [leafE, leafE2]
   \<and> clickHandler (Some recordCall) (click navContent) (workspace_of [leafA, leafE, leafE2]) =
       Inr \<lparr>leaves = [leafA, leafE, leafE2], activeLeaf = Some leafE,
            trace = [SetActiveLeaf leafE]\<rparr>"
proof -
  note ex = example_click_resolves
  have h6: "''Notes/X.md'' \<noteq> []"
    by simp
  have h7: "getLeavesOfType (workspace_of [leafA, leafE, leafE2]) ''empty'' = [leafE, leafE2]"
    by (simp add: getLeavesOfType_def)
  from C6_empty_pane_reused [OF ex [THEN conjunct1] ex [THEN conjunct2, THEN conjunct1]
      ex [THEN conjunct2, THEN conjunct2, THEN conjunct1]
      ex [THEN conjunct2, THEN conjunct2, THEN conjunct2, THEN conjunct1]
      ex [THEN conjunct2, THEN conjunct2, THEN conjunct2, THEN conjunct2] h6 h7,
      where oldOpenLinkText = "Some recordCall"]
  show ?thesis
    using ex h7 by simp
qed




text \<open>
  Claim C8. A click with shift, ctrl, meta or alt held leaves the workspace as it is:
  no propagation is stopped, no pane is activated, \<^verbatim>\<open>openLinkText\<close> is not called and no
  event is dispatched. In particular the click that the listener itself dispatches, once
  delivered to its target, passes through the listener without any effect.
\<close>

theorem C8_modifier_guard:
  "(shiftKey event \<or> ctrlKey event \<or> metaKey event \<or> altKey event
      \<longrightarrow> clickHandler oldOpenLinkText event ws = Inr ws)
   \<and> clickHandler oldOpenLinkText' (clickEvent\<lparr>target := Some tgt\<rparr>) ws' = Inr ws'"
  by (auto simp: clickHandler_def pureClick_def clickEvent_def)

theorem C8_witness:
  "ctrlKey (ctrlClick searchHit)
   \<and> clickHandler (Some recordCall) (ctrlClick searchHit) (workspace_of [leafA]) = Inr (workspace_of [leafA])
   \<and> clickHandler (Some recordCall) (clickEvent\<lparr>target := Some searchHit\<rparr>) (workspace_of [leafA]) =
       Inr (workspace_of [leafA])"
  using C8_modifier_guard [where event = "ctrlClick searchHit" and ws = "workspace_of [leafA]"
      and tgt = searchHit and ws' = "workspace_of [leafA]"
      and oldOpenLinkText = "Some recordCall" and oldOpenLinkText' = "Some recordCall"]
  by simp

text \<open>
  Three degenerate inputs are silent. Without an original method the patched method
  calls nothing: all it does is the scan (it activates the matching panes when
  \<open>isSameFile\<close> does not hold). A click on a file-tree title that has no ancestor with the
  row marker, or whose row has no \<^verbatim>\<open>data-path\<close>, returns normally and leaves the workspace
  as it is: no propagation is stopped, no pane is activated, \<^verbatim>\<open>openLinkText\<close> is not
  called.
\<close>

lemma degenerate_cases_silent:
  "trace (openLinkText None linkText sourcePath newLeaf openViewState ws) =
     trace ws @ map SetActiveLeaf
       (if isSameFile (fileName_of linkText) sourcePath then []
        else filter (\<lambda>leaf. matchesMarkdownFile (fileName_of linkText) (getViewState leaf)
                       \<or> matchesNonMarkdownFile (fileName_of linkText) (getViewState leaf))
               (leaves ws))
   \<and> (pureClick event \<and> target event = Some tgt \<and> isNavFile tgt
        \<and> closest ''nav-file-title'' tgt = None
      \<longrightarrow> clickHandler oldOpenLinkText event ws = Inr ws)
   \<and> (pureClick event' \<and> target event' = Some tgt' \<and> isNavFile tgt'
        \<and> closest ''nav-file-title'' tgt' = Some titleEl
        \<and> getAttribute titleEl ''data-path'' = None
      \<longrightarrow> clickHandler oldOpenLinkText event' ws = Inr ws)"
proof (intro conjI impI)
  show "trace (openLinkText None linkText sourcePath newLeaf openViewState ws) =
     trace ws @ map SetActiveLeaf
       (if isSameFile (fileName_of linkText) sourcePath then []
        else filter (\<lambda>leaf. matchesMarkdownFile (fileName_of linkText) (getViewState leaf)
                       \<or> matchesNonMarkdownFile (fileName_of linkText) (getViewState leaf))
               (leaves ws))"
    by (simp add: openLinkText_unfold Let_def)
next
  assume "pureClick event \<and> target event = Some tgt \<and> isNavFile tgt
        \<and> closest ''nav-file-title'' tgt = None"
  then show "clickHandler oldOpenLinkText event ws = Inr ws"
    by (simp add: clickHandler_def handleNavigationPanel_def)
next
  assume "pureClick event' \<and> target event' = Some tgt' \<and> isNavFile tgt'
        \<and> closest ''nav-file-title'' tgt' = Some titleEl
        \<and> getAttribute titleEl ''data-path'' = None"
  then show "clickHandler oldOpenLinkText event' ws = Inr ws"
    by (simp add: clickHandler_def handleNavigationPanel_def)
qed

lemma degenerate_cases_example:
  "trace (openLinkText None ''B'' ''A.md'' None None (workspace_of [leafA, leafB])) =
     [SetActiveLeaf leafB]
   \<and> pureClick (click orphanContent) \<and> target (click orphanContent) = Some orphanContent
   \<and> isNavFile orphanContent \<and> closest ''nav-file-title'' orphanContent = None
   \<and> clickHandler (Some recordCall) (click orphanContent) (workspace_of [leafA, leafB]) =
       Inr (workspace_of [leafA, leafB])
   \<and> pureClick (click bareRow) \<and> target (click bareRow) = Some bareRow
   \<and> isNavFile bareRow \<and> closest ''nav-file-title'' bareRow = Some bareRow
   \<and> getAttribute bareRow ''data-path'' = None
   \<and> clickHandler (Some recordCall) (click bareRow) (workspace_of [leafA, leafB]) =
       Inr (workspace_of [leafA, leafB])"
  using degenerate_cases_silent [where linkText = "''B''" and sourcePath = "''A.md''" and newLeaf = None
      and openViewState = None and ws = "workspace_of [leafA, leafB]"
      and event = "click orphanContent" and tgt = orphanContent
      and event' = "click bareRow" and tgt' = bareRow and titleEl = bareRow
      and oldOpenLinkText = "Some recordCall"]
  by (simp add: pureClick_def isNavFile_def contains_def getAttribute_def fileName_of_def
      isSameFile_def matchesMarkdownFile_def matchesNonMarkdownFile_def opt_endsWith_def
      endsWith_def suffix_to_prefix)

text \<open>
  Claim C9. Not every degenerate input ends in a silent no-op. A click without modifier
  whose target is not an element passes the class tests, which are guarded
  (\<^verbatim>\<open>target?.classList?.contains\<close>), and then reaches \<^verbatim>\<open>target.getAttribute('aria-label')\<close>,
  which is not: the listener throws a \<^verbatim>\<open>TypeError\<close>, whatever the workspace is.
\<close>

theorem C9_target_not_element_throws:
  assumes "pureClick event" and "target event = None"
  shows "clickHandler oldOpenLinkText event ws = Inl TypeError"
  using assms by (simp add: clickHandler_def)

theorem C9_witness:
  "pureClick documentClick \<and> target documentClick = None
   \<and> clickHandler (Some recordCall) documentClick (workspace_of [leafA, leafB]) = Inl TypeError"
proof -
  have h1: "pureClick documentClick"
    by (simp add: pureClick_def)
  have h2: "target documentClick = None"
    by simp
  from C9_target_not_element_throws [OF h1 h2, where oldOpenLinkText = "Some recordCall"
      and ws = "workspace_of [leafA, leafB]"]
  show ?thesis
    using h1 h2 by simp
qed

text \<open>
  Claim C10. For a click on a file-tree row whose non-empty \<^verbatim>\<open>data-path\<close> is the file of
  some open pane while a pane of type \<^verbatim>\<open>empty\<close> exists: the panes showing the path are
  activated first, then the first empty pane, which is the active pane afterwards; it is
  none of the matched panes unless it shows the path itself. The propagation is not
  stopped and \<^verbatim>\<open>openLinkText\<close> is not called.
\<close>

theorem C10_empty_overrides_match:
  assumes "pureClick event" and "target event = Some tgt" and "isNavFile tgt"
    and "closest ''nav-file-title'' tgt = Some titleEl"
    and "getAttribute titleEl ''data-path'' = Some path" and "path \<noteq> []"
    and "ms = filter (\<lambda>leaf. vfile (getViewState leaf) = Some path) (leaves ws)"
    and "ms \<noteq> []"
    and "getLeavesOfType ws ''empty'' = e # es"
  shows "clickHandler oldOpenLinkText event ws =
           Inr (ws\<lparr>activeLeaf := Some e,
                    trace := trace ws @ map SetActiveLeaf ms @ [SetActiveLeaf e]\<rparr>)
         \<and> vtype (getViewState e) = ''empty''
         \<and> (vfile (getViewState e) \<noteq> Some path \<longrightarrow> e \<notin> set ms)"
proof -
  from assms(9) have "e \<in> set (getLeavesOfType ws ''empty'')"
    by simp
  then have "vtype (getViewState e) = ''empty''"
    by (simp add: getLeavesOfType_def)
  moreover have "vfile (getViewState e) \<noteq> Some path \<longrightarrow> e \<notin> set ms"
    by (simp add: assms(7))
  moreover have "clickHandler oldOpenLinkText event ws =
           Inr (ws\<lparr>activeLeaf := Some e,
                    trace := trace ws @ map SetActiveLeaf ms @ [SetActiveLeaf e]\<rparr>)"
    using assms(9)
    by (simp add: clickHandler_nav [OF assms(1-3)] handleNavigationPanel_unfold [OF assms(4-6)]
        Let_def setActiveLeaf_def assms(7))
  ultimately show ?thesis
    by blast
qed

theorem C10_witness:
  "pureClick (click navContent) \<and> target (click navContent) = Some navContent
   \<and> isNavFile navContent \<and> closest ''nav-file-title'' navContent = Some navRow
   \<and> getAttribute navRow ''data-path'' = Some ''Notes/X.md''
   \<and> filter (\<lambda>leaf. vfile (getViewState leaf) = Some ''Notes/X.md'') [leafX, leafE, leafE2]
       = [leafX]
   \<and> getLeavesOfType (workspace_of [leafX, leafE, leafE2]) ''empty'' = [leafE, leafE2]
   \<and> clickHandler (Some recordCall) (click navContent) (workspace_of [leafX, leafE, leafE2]) =
       Inr \<lparr>leaves = [leafX, leafE, leafE2], activeLeaf = Some leafE,
            trace = [SetActiveLeaf leafX, SetActiveLeaf leafE]\<rparr>
   \<and> vtype (getViewState leafE) = ''empty''
   \<and> leafE \<notin> set [leafX]"
proof -
  note ex = example_click_resolves
  have h6: "''Notes/X.md'' \<noteq> []"
    by simp
  have h8: "filter (\<lambda>leaf. vfile (getViewState leaf) = Some ''Notes/X.md'')
      (leaves (workspace_of [leafX, leafE, leafE2])) \<noteq> []"
    by simp
  have h9: "getLeavesOfType (workspace_of [leafX, leafE, leafE2]) ''empty'' = [leafE, leafE2]"
    by (simp add: getLeavesOfType_def)
  from C10_empty_overrides_match [OF ex [THEN conjunct1] ex [THEN conjunct2, THEN conjunct1]
      ex [THEN conjunct2, THEN conjunct2, THEN conjunct1]
      ex [THEN conjunct2, THEN conjunct2, THEN conjunct2, THEN conjunct1]
      ex [THEN conjunct2, THEN conjunct2, THEN conjunct2, THEN conjunct2] h6 refl h8 h9,
      where oldOpenLinkText = "Some recordCall"]
  show ?thesis
    using ex h9 by simp
qed

end
